theory Spec2Isabelle
  imports Main
begin

section \<open>Values of the screen\<close>

text \<open>
  The screen of \<^verbatim>\<open>src/src/App.tsx\<close> combines contract reads with JavaScript's
  \<^verbatim>\<open>&&\<close>, \<^verbatim>\<open>||\<close> and \<^verbatim>\<open>!\<close>, which work on any value through its truthiness:
  \<^verbatim>\<open>undefined\<close>, \<^verbatim>\<open>0n\<close>, \<^verbatim>\<open>false\<close> and the empty string are falsy. The values that
  occur in those expressions are modelled by one datatype.
\<close>

datatype jsval = Undefined | BigInt int | Bool bool | Str string

fun truthy :: "jsval \<Rightarrow> bool" where
  "truthy Undefined = False"
| "truthy (BigInt n) = (n \<noteq> 0)"
| "truthy (Bool b) = b"
| "truthy (Str s) = (s \<noteq> [])"

text \<open>\<^verbatim>\<open>x && y\<close> is \<^verbatim>\<open>x\<close> when \<^verbatim>\<open>x\<close> is falsy and \<^verbatim>\<open>y\<close> otherwise; \<^verbatim>\<open>x || y\<close> is \<^verbatim>\<open>x\<close> when
  \<^verbatim>\<open>x\<close> is truthy and \<^verbatim>\<open>y\<close> otherwise; \<^verbatim>\<open>!x\<close> is a boolean.\<close>

definition js_and :: "jsval \<Rightarrow> jsval \<Rightarrow> jsval" where
  "js_and x y = (if truthy x then y else x)"

definition js_or :: "jsval \<Rightarrow> jsval \<Rightarrow> jsval" where
  "js_or x y = (if truthy x then x else y)"

definition js_not :: "jsval \<Rightarrow> jsval" where
  "js_not x = Bool (\<not> truthy x)"

text \<open>The \<^verbatim>\<open>data\<close> of a read hook is \<^verbatim>\<open>undefined\<close> until the read resolves. Every
  \<^verbatim>\<open>uint256\<close> and \<^verbatim>\<open>uint8\<close> the contracts return is a natural number.\<close>

definition of_uint :: "nat option \<Rightarrow> jsval" where
  "of_uint r = (case r of None \<Rightarrow> Undefined | Some n \<Rightarrow> BigInt (int n))"

definition of_flag :: "bool option \<Rightarrow> jsval" where
  "of_flag r = (case r of None \<Rightarrow> Undefined | Some b \<Rightarrow> Bool b)"

definition of_addr :: "string option \<Rightarrow> jsval" where
  "of_addr r = (case r of None \<Rightarrow> Undefined | Some a \<Rightarrow> Str a)"

text \<open>\<^verbatim>\<open>a > r\<close> and \<^verbatim>\<open>a < r\<close> for a bigint \<^verbatim>\<open>a\<close> and the data \<^verbatim>\<open>r\<close> of a read: a
  comparison with \<^verbatim>\<open>undefined\<close> is \<^verbatim>\<open>false\<close>.\<close>

definition gt_read :: "int \<Rightarrow> nat option \<Rightarrow> jsval" where
  "gt_read a r = (case r of None \<Rightarrow> Bool False | Some n \<Rightarrow> Bool (a > int n))"

definition lt_read :: "int \<Rightarrow> nat option \<Rightarrow> jsval" where
  "lt_read a r = (case r of None \<Rightarrow> Bool False | Some n \<Rightarrow> Bool (a < int n))"

section \<open>The state the screen renders from\<close>

text \<open>
  One render of \<^verbatim>\<open>Screen\<close> sees the results of its hooks and its two input fields. The
  reads that are only displayed (name, symbol, totals, cap, cooldowns, balances) take no
  part in any condition and are left out.
\<close>

record screen =
  address :: "string option"
  chainId :: "nat option"
  isConnected :: bool
  vaultDecimals :: "nat option"
  assetAddress :: "string option"
  paused :: "bool option"
  availableToDeposit :: "nat option"
  minDep :: "nat option"
  maxDep :: "nat option"
  minWdr :: "nat option"
  maxWdr :: "nat option"
  tokenDecimals :: "nat option"
  previewShares :: "nat option"
  previewAssets :: "nat option"
  allowance :: "nat option"
  isWriting :: bool
  depInput :: string
  redInput :: string

text \<open>\<^verbatim>\<open>sepolia.id\<close>, the chain the header of the screen names.\<close>

definition sepolia_id :: nat where
  "sepolia_id = 11155111"

text \<open>The default of \<^verbatim>\<open>VAULT_ADDRESS\<close> (the environment may override it).\<close>

definition VAULT_ADDRESS :: string where
  "VAULT_ADDRESS = ''0xbfB71eD001E504C782cC60F4D2bb744854e19eD5''"

text \<open>\<^verbatim>\<open>const wrongChain = isConnected && chainId !== sepolia.id\<close>\<close>

definition wrongChain :: "screen \<Rightarrow> jsval" where
  "wrongChain s = js_and (Bool (isConnected s)) (Bool (chainId s \<noteq> Some sepolia_id))"

text \<open>\<^verbatim>\<open>const vDec = Number(vaultDecimals ?? 18)\<close> and
  \<^verbatim>\<open>const aDec = Number(tokenDecimals ?? 6)\<close>\<close>

definition vDec :: "screen \<Rightarrow> nat" where
  "vDec s = (case vaultDecimals s of None \<Rightarrow> 18 | Some d \<Rightarrow> d)"

definition aDec :: "screen \<Rightarrow> nat" where
  "aDec s = (case tokenDecimals s of None \<Rightarrow> 6 | Some d \<Rightarrow> d)"

section \<open>Parsing the input fields\<close>

text \<open>
  \<^verbatim>\<open>parseUnits\<close> is imported from the viem library and is not part of the repository. It
  is a parameter \<open>pu\<close> of the model: \<open>pu text d\<close> is \<open>None\<close> when the call throws and the
  bigint it returns otherwise.

  \<^verbatim>\<open>try { return parseUnits(depInput || '0', aDec) } catch { return 0n }\<close>
\<close>

type_synonym parse_units = "string \<Rightarrow> nat \<Rightarrow> int option"

definition parseOrZero :: "parse_units \<Rightarrow> string \<Rightarrow> nat \<Rightarrow> int" where
  "parseOrZero pu text d =
     (case pu (if text = [] then ''0'' else text) d of None \<Rightarrow> 0 | Some v \<Rightarrow> v)"

definition depAmount :: "parse_units \<Rightarrow> screen \<Rightarrow> int" where
  "depAmount pu s = parseOrZero pu (depInput s) (aDec s)"

definition redShares :: "parse_units \<Rightarrow> screen \<Rightarrow> int" where
  "redShares pu s = parseOrZero pu (redInput s) (vDec s)"

section \<open>Client-side validation helpers\<close>

text \<open>
  The helpers of lines 188 to 193, as functions of the render state and of the parsed
  amount:
  \<^verbatim>\<open>
  const belowMinDep = minDep && depAmount > 0n && depAmount < minDep
  const aboveMaxDep = maxDep && depAmount > 0n && depAmount > maxDep
  const overAvailDep = availableToDeposit && depAmount > availableToDeposit
  const aboveMaxWdr = maxWdr && redShares > 0n && previewAssets !== undefined && previewAssets > maxWdr
  const belowMinWdr = minWdr && redShares > 0n && previewAssets !== undefined && previewAssets < minWdr
  \<close>
\<close>

definition belowMinDep :: "screen \<Rightarrow> int \<Rightarrow> jsval" where
  "belowMinDep s a = js_and (js_and (of_uint (minDep s)) (Bool (a > 0))) (lt_read a (minDep s))"

definition aboveMaxDep :: "screen \<Rightarrow> int \<Rightarrow> jsval" where
  "aboveMaxDep s a = js_and (js_and (of_uint (maxDep s)) (Bool (a > 0))) (gt_read a (maxDep s))"

definition overAvailDep :: "screen \<Rightarrow> int \<Rightarrow> jsval" where
  "overAvailDep s a = js_and (of_uint (availableToDeposit s)) (gt_read a (availableToDeposit s))"

definition previewAbove :: "nat option \<Rightarrow> nat option \<Rightarrow> jsval" where
  "previewAbove p r = (case p of None \<Rightarrow> Bool False | Some v \<Rightarrow> gt_read (int v) r)"

definition previewBelow :: "nat option \<Rightarrow> nat option \<Rightarrow> jsval" where
  "previewBelow p r = (case p of None \<Rightarrow> Bool False | Some v \<Rightarrow> lt_read (int v) r)"

definition aboveMaxWdr :: "screen \<Rightarrow> int \<Rightarrow> jsval" where
  "aboveMaxWdr s r =
     js_and (js_and (js_and (of_uint (maxWdr s)) (Bool (r > 0))) (Bool (previewAssets s \<noteq> None)))
       (previewAbove (previewAssets s) (maxWdr s))"

definition belowMinWdr :: "screen \<Rightarrow> int \<Rightarrow> jsval" where
  "belowMinWdr s r =
     js_and (js_and (js_and (of_uint (minWdr s)) (Bool (r > 0))) (Bool (previewAssets s \<noteq> None)))
       (previewBelow (previewAssets s) (minWdr s))"

section \<open>What the screen shows\<close>

text \<open>The \<^verbatim>\<open>disabled\<close> attribute of the deposit button (line 281):
  \<^verbatim>\<open>!isConnected || !assetAddress || depAmount === 0n || Boolean(paused) || belowMinDep
     || aboveMaxDep || overAvailDep || wrongChain || isWriting\<close>\<close>

definition depositDisabledAttr :: "screen \<Rightarrow> int \<Rightarrow> jsval" where
  "depositDisabledAttr s a =
     js_or (js_or (js_or (js_or (js_or (js_or (js_or (js_or
       (js_not (Bool (isConnected s)))
       (js_not (of_addr (assetAddress s))))
       (Bool (a = 0)))
       (Bool (truthy (of_flag (paused s)))))
       (belowMinDep s a))
       (aboveMaxDep s a))
       (overAvailDep s a))
       (wrongChain s))
       (Bool (isWriting s))"

definition depositDisabled :: "screen \<Rightarrow> int \<Rightarrow> bool" where
  "depositDisabled s a = truthy (depositDisabledAttr s a)"

text \<open>The \<^verbatim>\<open>disabled\<close> attribute of the redeem button (line 337):
  \<^verbatim>\<open>!isConnected || redShares === 0n || Boolean(paused) || wrongChain\<close>\<close>

definition redeemDisabledAttr :: "screen \<Rightarrow> int \<Rightarrow> jsval" where
  "redeemDisabledAttr s r =
     js_or (js_or (js_or
       (js_not (Bool (isConnected s)))
       (Bool (r = 0)))
       (Bool (truthy (of_flag (paused s)))))
       (wrongChain s)"

definition redeemDisabled :: "screen \<Rightarrow> int \<Rightarrow> bool" where
  "redeemDisabled s r = truthy (redeemDisabledAttr s r)"

text \<open>
  The violations the screen reports: the banner \<^verbatim>\<open>{paused && (...)}\<close> of lines 221 to
  226 and the red texts under the two input fields (lines 271 to 277 and 329 to 334),
  each shown when its helper is truthy, in the order in which they are rendered.
\<close>

datatype violation = VaultPaused | BelowMinimum | AboveMaximum | ExceedsAvailableCapacity

definition shown :: "jsval \<Rightarrow> 'a \<Rightarrow> 'a list" where
  "shown c x = (if truthy c then [x] else [])"

definition pausedBanner :: "screen \<Rightarrow> violation list" where
  "pausedBanner s = shown (of_flag (paused s)) VaultPaused"

definition depositViolations :: "screen \<Rightarrow> int \<Rightarrow> violation list" where
  "depositViolations s a =
     pausedBanner s @ shown (belowMinDep s a) BelowMinimum @ shown (aboveMaxDep s a) AboveMaximum
       @ shown (overAvailDep s a) ExceedsAvailableCapacity"

definition redeemViolations :: "screen \<Rightarrow> int \<Rightarrow> violation list" where
  "redeemViolations s r =
     pausedBanner s @ shown (belowMinWdr s r) BelowMinimum @ shown (aboveMaxWdr s r) AboveMaximum"

definition depositTexts :: "screen \<Rightarrow> int \<Rightarrow> string list" where
  "depositTexts s a =
     shown (belowMinDep s a) ''Below min deposit. '' @ shown (aboveMaxDep s a) ''Above max deposit. ''
       @ shown (overAvailDep s a) ''Exceeds available to deposit. ''"

definition redeemTexts :: "screen \<Rightarrow> int \<Rightarrow> string list" where
  "redeemTexts s r =
     shown (belowMinWdr s r) ''Below min withdraw. '' @ shown (aboveMaxWdr s r) ''Above max withdraw. ''"

section \<open>The click handlers\<close>

text \<open>
  A handler talks to the wallet and the network only through awaited calls. An
  \<^verbatim>\<open>await writeContractAsync(...)\<close> either throws or resolves with the hash of the
  transaction that was handed to the network; the source names the results
  \<^verbatim>\<open>approveTx\<close>, \<^verbatim>\<open>depositTx\<close> and \<^verbatim>\<open>tx\<close>. A run of a handler is the list of its
  effects in program order, together with the way it ends.
\<close>

datatype write_error = SignatureRejected | BroadcastFailed | Reverted

type_synonym tx_hash = string

type_synonym write_result = "write_error + tx_hash"

datatype write_call =
    Approve string string int
  | Deposit string int string
  | Redeem string int string string

text \<open>
  \<open>Wrote c r\<close>: \<^verbatim>\<open>writeContractAsync\<close> was called with \<open>c\<close> and the awaited promise
  settled with \<open>r\<close>. \<open>ReceiptObserved h\<close>: the handler waited until the network reported
  transaction \<open>h\<close> as included. The file imports no function that waits for a receipt
  (line 15 imports \<^verbatim>\<open>useReadContract\<close>, \<^verbatim>\<open>useWriteContract\<close>, \<^verbatim>\<open>useSwitchChain\<close> and
  \<^verbatim>\<open>useAccount\<close> only), so no handler below produces this event; it is in the alphabet
  so that an ordering against it can be stated.
\<close>

datatype event =
    Wrote write_call write_result
  | ReceiptObserved tx_hash
  | ConsoleLog string tx_hash
  | ConsoleError string write_error
  | SetDepInput string
  | SetRedInput string

text \<open>An async handler either returns, or the promise it returned is rejected with an
  error nobody handles.\<close>

datatype outcome = Returned | Unhandled write_error

type_synonym writer = "write_call \<Rightarrow> write_result"

text \<open>\<^verbatim>\<open>(allowance ?? 0n) < depAmount\<close>\<close>

definition needsApproval :: "screen \<Rightarrow> int \<Rightarrow> bool" where
  "needsApproval s a = (int (case allowance s of None \<Rightarrow> 0 | Some n \<Rightarrow> n) < a)"

text \<open>
  The body of the \<^verbatim>\<open>try\<close> block of the deposit handler (lines 287 to 306): the effects
  up to the point where it ends, and the error thrown, if any.
  \<^verbatim>\<open>
  if ((allowance ?? 0n) < depAmount) {
    const approveTx = await writeContractAsync({ ... functionName: 'approve', args: [VAULT_ADDRESS, depAmount] })
    console.log('approve tx', approveTx)
  }
  const depositTx = await writeContractAsync({ ... functionName: 'deposit', args: [depAmount, address] })
  console.log('deposit tx', depositTx)
  setDepInput('')
  \<close>
\<close>

definition approveStep :: "writer \<Rightarrow> string \<Rightarrow> screen \<Rightarrow> int \<Rightarrow> event list \<times> write_error option" where
  "approveStep w asset s a =
     (if needsApproval s a then
        (case w (Approve asset VAULT_ADDRESS a) of
           Inl err \<Rightarrow> ([Wrote (Approve asset VAULT_ADDRESS a) (Inl err)], Some err)
         | Inr h \<Rightarrow> ([Wrote (Approve asset VAULT_ADDRESS a) (Inr h), ConsoleLog ''approve tx'' h], None))
      else ([], None))"

definition depositStep :: "writer \<Rightarrow> string \<Rightarrow> int \<Rightarrow> event list \<times> write_error option" where
  "depositStep w addr a =
     (case w (Deposit VAULT_ADDRESS a addr) of
        Inl err \<Rightarrow> ([Wrote (Deposit VAULT_ADDRESS a addr) (Inl err)], Some err)
      | Inr h \<Rightarrow> ([Wrote (Deposit VAULT_ADDRESS a addr) (Inr h), ConsoleLog ''deposit tx'' h,
                   SetDepInput []], None))"

definition depositTry :: "writer \<Rightarrow> string \<Rightarrow> string \<Rightarrow> screen \<Rightarrow> int \<Rightarrow> event list \<times> write_error option" where
  "depositTry w addr asset s a =
     (case approveStep w asset s a of
        (evs, Some err) \<Rightarrow> (evs, Some err)
      | (evs, None) \<Rightarrow> (evs @ fst (depositStep w addr a), snd (depositStep w addr a)))"

text \<open>
  The deposit handler (lines 283 to 310): the guard \<^verbatim>\<open>if (!address || !assetAddress) return\<close>,
  then the \<^verbatim>\<open>try\<close> block, whose \<^verbatim>\<open>catch\<close> logs \<^verbatim>\<open>console.error('Deposit flow failed', err)\<close>.
\<close>

definition depositOnClick :: "writer \<Rightarrow> screen \<Rightarrow> int \<Rightarrow> event list \<times> outcome" where
  "depositOnClick w s a =
     (if truthy (js_or (js_not (of_addr (address s))) (js_not (of_addr (assetAddress s))))
      then ([], Returned)
      else (case (address s, assetAddress s) of
              (Some addr, Some asset) \<Rightarrow>
                (case depositTry w addr asset s a of
                   (evs, None) \<Rightarrow> (evs, Returned)
                 | (evs, Some err) \<Rightarrow> (evs @ [ConsoleError ''Deposit flow failed'' err], Returned))
            | _ \<Rightarrow> ([], Returned)))"

text \<open>
  The redeem handler (lines 339 to 349); it has no \<^verbatim>\<open>try\<close> block:
  \<^verbatim>\<open>
  if (!address) return
  const tx = await writeContractAsync({ ... functionName: 'redeem', args: [redShares, address, address] })
  console.log('redeem tx', tx)
  setRedInput('')
  \<close>
\<close>

definition redeemOnClick :: "writer \<Rightarrow> screen \<Rightarrow> int \<Rightarrow> event list \<times> outcome" where
  "redeemOnClick w s r =
     (if truthy (js_not (of_addr (address s))) then ([], Returned)
      else (case address s of
              Some addr \<Rightarrow>
                (case w (Redeem VAULT_ADDRESS r addr addr) of
                   Inl err \<Rightarrow> ([Wrote (Redeem VAULT_ADDRESS r addr addr) (Inl err)], Unhandled err)
                 | Inr h \<Rightarrow> ([Wrote (Redeem VAULT_ADDRESS r addr addr) (Inr h), ConsoleLog ''redeem tx'' h,
                              SetRedInput []], Returned))
            | None \<Rightarrow> ([], Returned)))"

section \<open>The screen as a whole\<close>

text \<open>
  The parsed amounts feed the preview reads (lines 167 to 175, argument and \<^verbatim>\<open>enabled\<close>
  flag), the validation helpers, the buttons and the handlers.
\<close>

definition previewDepositQuery :: "parse_units \<Rightarrow> screen \<Rightarrow> int \<times> bool" where
  "previewDepositQuery pu s = (depAmount pu s, depAmount pu s > 0)"

definition previewRedeemQuery :: "parse_units \<Rightarrow> screen \<Rightarrow> int \<times> bool" where
  "previewRedeemQuery pu s = (redShares pu s, redShares pu s > 0)"

definition screenDepositViolations :: "parse_units \<Rightarrow> screen \<Rightarrow> violation list" where
  "screenDepositViolations pu s = depositViolations s (depAmount pu s)"

definition screenRedeemViolations :: "parse_units \<Rightarrow> screen \<Rightarrow> violation list" where
  "screenRedeemViolations pu s = redeemViolations s (redShares pu s)"

definition screenDepositDisabled :: "parse_units \<Rightarrow> screen \<Rightarrow> bool" where
  "screenDepositDisabled pu s = depositDisabled s (depAmount pu s)"

definition screenRedeemDisabled :: "parse_units \<Rightarrow> screen \<Rightarrow> bool" where
  "screenRedeemDisabled pu s = redeemDisabled s (redShares pu s)"

definition screenDepositClick :: "parse_units \<Rightarrow> writer \<Rightarrow> screen \<Rightarrow> event list \<times> outcome" where
  "screenDepositClick pu w s = depositOnClick w s (depAmount pu s)"

definition screenRedeemClick :: "parse_units \<Rightarrow> writer \<Rightarrow> screen \<Rightarrow> event list \<times> outcome" where
  "screenRedeemClick pu w s = redeemOnClick w s (redShares pu s)"

section \<open>Properties of runs\<close>

fun is_deposit_write :: "event \<Rightarrow> bool" where
  "is_deposit_write (Wrote (Deposit v a r) res) = True"
| "is_deposit_write e = False"

fun is_receipt :: "event \<Rightarrow> bool" where
  "is_receipt (ReceiptObserved h) = True"
| "is_receipt e = False"

fun is_approval_submitted :: "event \<Rightarrow> bool" where
  "is_approval_submitted (Wrote (Approve t v a) (Inr h)) = True"
| "is_approval_submitted e = False"

fun is_failed_write :: "event \<Rightarrow> bool" where
  "is_failed_write (Wrote c (Inl err)) = True"
| "is_failed_write e = False"

fun is_error_log :: "event \<Rightarrow> bool" where
  "is_error_log (ConsoleError m err) = True"
| "is_error_log e = False"

fun is_write :: "event \<Rightarrow> bool" where
  "is_write (Wrote c res) = True"
| "is_write e = False"

text \<open>No deposit call is issued before the first event that satisfies \<open>P\<close> (and none
  at all when there is no such event).\<close>

fun no_deposit_before :: "(event \<Rightarrow> bool) \<Rightarrow> event list \<Rightarrow> bool" where
  "no_deposit_before P [] = True"
| "no_deposit_before P (e # tr) = (if P e then True else \<not> is_deposit_write e \<and> no_deposit_before P tr)"

text \<open>The amount a write call carries.\<close>

fun call_amount :: "write_call \<Rightarrow> int" where
  "call_amount (Approve t v a) = a"
| "call_amount (Deposit v a r) = a"
| "call_amount (Redeem v a r ow) = a"

fun written_amounts :: "event list \<Rightarrow> int list" where
  "written_amounts [] = []"
| "written_amounts (Wrote c res # tr) = call_amount c # written_amounts tr"
| "written_amounts (e # tr) = written_amounts tr"

section \<open>Sample states and environments\<close>

text \<open>A connected wallet on Sepolia before any policy read or preview has resolved.\<close>

definition unloadedScreen :: screen where
  "unloadedScreen = \<lparr> address = Some ''0xA11CE'', chainId = Some 11155111, isConnected = True,
     vaultDecimals = None, assetAddress = Some ''0x1c7D4B196Cb0C7B01d743Fbc6116a902379C7238'',
     paused = None, availableToDeposit = None, minDep = None, maxDep = None, minWdr = None,
     maxWdr = None, tokenDecimals = None, previewShares = None, previewAssets = None,
     allowance = None, isWriting = False, depInput = ''1'', redInput = ''1'' \<rparr>"

text \<open>The same wallet with every policy read resolved, the limits of the example of
  section 8 of the specification, and no allowance yet.\<close>

definition loadedScreen :: screen where
  "loadedScreen = unloadedScreen \<lparr> vaultDecimals := Some 18, paused := Some False,
     availableToDeposit := Some 5000, minDep := Some 100, maxDep := Some 10000,
     minWdr := Some 100, maxWdr := Some 10000, tokenDecimals := Some 6, allowance := Some 0 \<rparr>"

text \<open>A network on which every write is submitted, each call with a hash of its own,
  and a wallet whose user rejects every signature.\<close>

definition submitsAll :: writer where
  "submitsAll c =
     (case c of Approve t v a \<Rightarrow> Inr ''0xa1'' | Deposit v a r \<Rightarrow> Inr ''0xd2''
      | Redeem v a r ow \<Rightarrow> Inr ''0xe3'')"

definition rejectsAll :: writer where
  "rejectsAll c = Inl SignatureRejected"

text \<open>A stand-in for \<^verbatim>\<open>parseUnits\<close> that knows the text \<^verbatim>\<open>1\<close> only (one whole token is
  \<open>10 ^ d\<close> base units) and throws on every other text.\<close>

definition parsesOne :: parse_units where
  "parsesOne text d = (if text = ''1'' then Some (10 ^ d) else None)"

section \<open>Helper facts\<close>

lemmas js_defs = js_and_def js_or_def js_not_def of_uint_def of_flag_def of_addr_def
  gt_read_def lt_read_def shown_def

lemmas helper_defs = belowMinDep_def aboveMaxDep_def overAvailDep_def aboveMaxWdr_def
  belowMinWdr_def previewAbove_def previewBelow_def wrongChain_def

lemmas click_defs = depositOnClick_def depositTry_def approveStep_def depositStep_def
  redeemOnClick_def needsApproval_def

lemmas whole_defs = previewDepositQuery_def previewRedeemQuery_def screenDepositViolations_def
  screenRedeemViolations_def screenDepositDisabled_def screenRedeemDisabled_def
  screenDepositClick_def screenRedeemClick_def depAmount_def redShares_def aDec_def vDec_def

lemmas sample_defs = loadedScreen_def unloadedScreen_def submitsAll_def rejectsAll_def
  parsesOne_def sepolia_id_def

text \<open>The two \<^verbatim>\<open>disabled\<close> attributes as plain disjunctions.\<close>

lemma depositDisabled_iff:
  "depositDisabled s a =
     (\<not> isConnected s \<or> \<not> truthy (of_addr (assetAddress s)) \<or> a = 0 \<or> paused s = Some True
      \<or> truthy (belowMinDep s a) \<or> truthy (aboveMaxDep s a) \<or> truthy (overAvailDep s a)
      \<or> truthy (wrongChain s) \<or> isWriting s)"
  by (cases "paused s")
    (auto simp: depositDisabled_def depositDisabledAttr_def js_or_def js_not_def of_flag_def)

lemma redeemDisabled_iff:
  "redeemDisabled s r =
     (\<not> isConnected s \<or> r = 0 \<or> paused s = Some True \<or> truthy (wrongChain s))"
  by (cases "paused s")
    (auto simp: redeemDisabled_def redeemDisabledAttr_def js_or_def js_not_def of_flag_def)


text \<open>What the source's wrapper around \<^verbatim>\<open>parseUnits\<close> does by itself: the empty
  text is parsed as \<^verbatim>\<open>0\<close>, a throw becomes zero, and any other result is passed
  through unchanged.\<close>

lemma parseOrZero_empty: "parseOrZero pu [] d = parseOrZero pu ''0'' d"
  by (simp add: parseOrZero_def)

lemma parseOrZero_throws:
  "pu (if text = [] then ''0'' else text) d = None \<Longrightarrow> parseOrZero pu text d = 0"
  by (simp add: parseOrZero_def)

lemma parseOrZero_returns:
  "pu (if text = [] then ''0'' else text) d = Some v \<Longrightarrow> parseOrZero pu text d = v"
  by (simp add: parseOrZero_def)

text \<open>The runs of the deposit handler, path by path: the guard, a failed approval, a
  failed deposit and the complete flow, each with and without the approval step.\<close>

lemma guard_passed:
  assumes "\<not> truthy (js_or (js_not (of_addr (address s))) (js_not (of_addr (assetAddress s))))"
  obtains addr asset where "address s = Some addr" and "assetAddress s = Some asset"
proof -
  from assms have "address s \<noteq> None \<and> assetAddress s \<noteq> None"
    by (auto simp: js_or_def js_not_def of_addr_def split: option.splits if_splits)
  then show thesis using that by auto
qed

lemma deposit_run_guard:
  "truthy (js_or (js_not (of_addr (address s))) (js_not (of_addr (assetAddress s))))
     \<Longrightarrow> depositOnClick w s a = ([], Returned)"
  by (simp add: depositOnClick_def)

lemma deposit_run_approve_failed:
  assumes "\<not> truthy (js_or (js_not (of_addr (address s))) (js_not (of_addr (assetAddress s))))"
    and "address s = Some addr" and "assetAddress s = Some asset"
    and "needsApproval s a" and "w (Approve asset VAULT_ADDRESS a) = Inl err"
  shows "depositOnClick w s a =
           ([Wrote (Approve asset VAULT_ADDRESS a) (Inl err),
             ConsoleError ''Deposit flow failed'' err], Returned)"
  using assms by (simp add: depositOnClick_def depositTry_def approveStep_def)

lemma deposit_run_approved:
  assumes "\<not> truthy (js_or (js_not (of_addr (address s))) (js_not (of_addr (assetAddress s))))"
    and "address s = Some addr" and "assetAddress s = Some asset"
    and "needsApproval s a" and "w (Approve asset VAULT_ADDRESS a) = Inr h"
  shows "depositOnClick w s a =
           (Wrote (Approve asset VAULT_ADDRESS a) (Inr h) # ConsoleLog ''approve tx'' h
              # fst (depositStep w addr a)
              @ (case snd (depositStep w addr a) of None \<Rightarrow> []
                 | Some err \<Rightarrow> [ConsoleError ''Deposit flow failed'' err]),
            Returned)"
  using assms
  by (cases "depositStep w addr a")
    (simp add: depositOnClick_def depositTry_def approveStep_def split: option.splits)

lemma deposit_run_no_approval:
  assumes "\<not> truthy (js_or (js_not (of_addr (address s))) (js_not (of_addr (assetAddress s))))"
    and "address s = Some addr" and "assetAddress s = Some asset"
    and "\<not> needsApproval s a"
  shows "depositOnClick w s a =
           (fst (depositStep w addr a)
              @ (case snd (depositStep w addr a) of None \<Rightarrow> []
                 | Some err \<Rightarrow> [ConsoleError ''Deposit flow failed'' err]),
            Returned)"
  using assms
  by (cases "depositStep w addr a")
    (simp add: depositOnClick_def depositTry_def approveStep_def split: option.splits)

text \<open>The limits of the example of section 8 of the specification, on the code.\<close>

lemma example_amounts:
  "depositViolations loadedScreen 50 = [BelowMinimum]"
  "depositViolations loadedScreen 6000 = [ExceedsAvailableCapacity]"
  "depositViolations loadedScreen 500 = []"
  "\<not> depositDisabled loadedScreen 500"
  by (simp_all add: depositDisabled_iff depositViolations_def pausedBanner_def helper_defs
      js_defs sample_defs)

section \<open>Ordering of approval and deposit\<close>

text \<open>
  Claim C1, as the code has it. When the allowance is below the requested amount, the
  deposit handler issues no deposit call before the awaited approval call has resolved
  with a transaction hash, that is, before the approval was submitted without an error;
  when the approval call fails, no deposit call is issued at all.
\<close>

theorem deposit_after_approval_submitted:
  assumes need: "needsApproval s a"
  shows "no_deposit_before is_approval_submitted (fst (depositOnClick w s a))"
proof (cases "truthy (js_or (js_not (of_addr (address s))) (js_not (of_addr (assetAddress s))))")
  case True
  then show ?thesis by (simp add: deposit_run_guard)
next
  case False
  then obtain addr asset where known: "address s = Some addr" "assetAddress s = Some asset"
    by (rule guard_passed)
  show ?thesis
  proof (cases "w (Approve asset VAULT_ADDRESS a)")
    case (Inl err)
    with False known need have "depositOnClick w s a =
        ([Wrote (Approve asset VAULT_ADDRESS a) (Inl err),
          ConsoleError ''Deposit flow failed'' err], Returned)"
      by (rule deposit_run_approve_failed)
    then show ?thesis by simp
  next
    case (Inr h)
    with False known need have "fst (depositOnClick w s a) =
        Wrote (Approve asset VAULT_ADDRESS a) (Inr h) # ConsoleLog ''approve tx'' h
          # fst (depositStep w addr a)
          @ (case snd (depositStep w addr a) of None \<Rightarrow> []
             | Some err \<Rightarrow> [ConsoleError ''Deposit flow failed'' err])"
      by (simp add: deposit_run_approved)
    then show ?thesis by simp
  qed
qed

text \<open>With no allowance and an amount of 100: on a network that takes every write, and
  with a user who rejects the approval.\<close>

theorem deposit_after_approval_submitted_witness:
  "needsApproval loadedScreen 100
   \<and> no_deposit_before is_approval_submitted (fst (depositOnClick submitsAll loadedScreen 100))
   \<and> no_deposit_before is_approval_submitted (fst (depositOnClick rejectsAll loadedScreen 100))
   \<and> fst (depositOnClick rejectsAll loadedScreen 100) =
       [Wrote (Approve ''0x1c7D4B196Cb0C7B01d743Fbc6116a902379C7238'' VAULT_ADDRESS 100)
          (Inl SignatureRejected),
        ConsoleError ''Deposit flow failed'' SignatureRejected]"
proof -
  have n: "needsApproval loadedScreen 100"
    by (simp add: needsApproval_def sample_defs)
  show ?thesis
    using n deposit_after_approval_submitted [OF n, of submitsAll]
      deposit_after_approval_submitted [OF n, of rejectsAll]
    by (simp add: click_defs js_defs sample_defs)
qed

text \<open>
  The claim as the specification states it asks for the approval's acceptance by the
  network to be observed first. In the run below the approval is needed, and the deposit
  call follows the approval's submission with no receipt observed in between.
\<close>

theorem deposit_before_acceptance_counterexample:
  "needsApproval loadedScreen 100
   \<and> fst (depositOnClick submitsAll loadedScreen 100) =
       [Wrote (Approve ''0x1c7D4B196Cb0C7B01d743Fbc6116a902379C7238'' VAULT_ADDRESS 100)
          (Inr ''0xa1''),
        ConsoleLog ''approve tx'' ''0xa1'',
        Wrote (Deposit VAULT_ADDRESS 100 ''0xA11CE'') (Inr ''0xd2''),
        ConsoleLog ''deposit tx'' ''0xd2'',
        SetDepInput []]
   \<and> \<not> no_deposit_before is_receipt (fst (depositOnClick submitsAll loadedScreen 100))"
  by (simp add: click_defs js_defs sample_defs)

text \<open>No run of either handler observes a receipt.\<close>

lemma handler_never_observes_receipt:
  "\<not> list_ex is_receipt (fst (depositOnClick w s a))"
  "\<not> list_ex is_receipt (fst (redeemOnClick w s r))"
  by (auto simp: click_defs js_defs split: option.splits sum.splits prod.splits if_splits)

section \<open>Available capacity\<close>

text \<open>
  Claim C2. An amount above the available capacity is reported as exceeding it. The code
  misses the case of a vault with no capacity left: \<^verbatim>\<open>availableToDeposit && ...\<close> is
  falsy when the read resolved to \<^verbatim>\<open>0n\<close>, so an amount of 500 against an available
  capacity of 0 is not reported and the deposit button stays enabled.
\<close>

theorem over_available_missed_at_zero:
  "availableToDeposit (loadedScreen\<lparr>availableToDeposit := Some 0\<rparr>) = Some 0
   \<and> depositViolations (loadedScreen\<lparr>availableToDeposit := Some 0\<rparr>) 500 = []
   \<and> depositTexts (loadedScreen\<lparr>availableToDeposit := Some 0\<rparr>) 500 = []
   \<and> \<not> depositDisabled (loadedScreen\<lparr>availableToDeposit := Some 0\<rparr>) 500"
  by (simp add: depositDisabled_iff depositViolations_def depositTexts_def pausedBanner_def
      helper_defs js_defs sample_defs)

text \<open>Against a positive available capacity the violation is reported, as in the
  example of the claim.\<close>

lemma over_available_reported:
  "availableToDeposit s = Some n \<Longrightarrow> 0 < n \<Longrightarrow> int n < a \<Longrightarrow>
     ExceedsAvailableCapacity \<in> set (depositViolations s a) \<and> depositDisabled s a"
  by (simp add: depositDisabled_iff depositViolations_def helper_defs js_defs)

lemma over_available_example:
  "ExceedsAvailableCapacity \<in> set (depositViolations loadedScreen 6000)"
  by (simp add: example_amounts)

section \<open>Unresolved policy reads\<close>




section \<open>The redeem button and the preview\<close>

text \<open>
  Claim C4, as the code has it. While the redeem preview is unresolved neither withdraw
  violation is reported, and no gate waits for the preview: with a positive share amount
  and the preview unresolved, the redeem button is disabled exactly when the wallet is
  not connected, the vault is known to be paused or the chain is wrong.
\<close>

theorem redeem_without_preview:
  "(previewAssets s = None \<longrightarrow>
      \<not> truthy (belowMinWdr s r) \<and> \<not> truthy (aboveMaxWdr s r))
   \<and> (previewAssets s = None \<and> 0 < r \<longrightarrow>
        redeemDisabled s r = (\<not> isConnected s \<or> paused s = Some True \<or> truthy (wrongChain s)))"
proof -
  have quiet: "\<not> truthy (belowMinWdr s r) \<and> \<not> truthy (aboveMaxWdr s r)"
    if "previewAssets s = None"
    using that by (simp add: belowMinWdr_def aboveMaxWdr_def js_and_def)
  have gate: "redeemDisabled s r = (\<not> isConnected s \<or> paused s = Some True \<or> truthy (wrongChain s))"
    if "0 < r"
    using that by (auto simp: redeemDisabled_iff)
  from quiet gate show ?thesis by blast
qed

theorem redeem_without_preview_witness:
  "previewAssets loadedScreen = None \<and> (0::int) < 1
   \<and> \<not> truthy (belowMinWdr loadedScreen 1) \<and> \<not> truthy (aboveMaxWdr loadedScreen 1)
   \<and> \<not> redeemDisabled loadedScreen 1
   \<and> redeemDisabled (loadedScreen\<lparr>paused := Some True\<rparr>) 1"
  using redeem_without_preview [where s = loadedScreen and r = 1]
    redeem_without_preview [where s = "loadedScreen\<lparr>paused := Some True\<rparr>" and r = 1]
  by (simp add: helper_defs js_defs sample_defs)

text \<open>The claim as stated fails for a connected wallet with one share unit typed in and
  the preview still unresolved: the button is enabled.\<close>

theorem no_preview_gate_counterexample:
  "previewAssets loadedScreen = None \<and> (0::int) < 1 \<and> \<not> redeemDisabled loadedScreen 1"
  by (simp add: redeemDisabled_iff helper_defs js_defs sample_defs)

section \<open>Withdraw limits and the redeem button\<close>

text \<open>
  Claim C5. A redeem whose previewed assets are below the withdraw minimum or above the
  withdraw maximum has its button disabled, with the text that explains it. On the code
  the text is shown but the button stays enabled: with limits 100 and 10000, a preview of
  5 and a preview of 20000 both leave the redeem button enabled.
\<close>

theorem redeem_enabled_despite_violation:
  "BelowMinimum \<in> set (redeemViolations (loadedScreen\<lparr>previewAssets := Some 5\<rparr>) 1)
   \<and> redeemTexts (loadedScreen\<lparr>previewAssets := Some 5\<rparr>) 1 = [''Below min withdraw. '']
   \<and> \<not> redeemDisabled (loadedScreen\<lparr>previewAssets := Some 5\<rparr>) 1
   \<and> AboveMaximum \<in> set (redeemViolations (loadedScreen\<lparr>previewAssets := Some 20000\<rparr>) 1)
   \<and> redeemTexts (loadedScreen\<lparr>previewAssets := Some 20000\<rparr>) 1 = [''Above max withdraw. '']
   \<and> \<not> redeemDisabled (loadedScreen\<lparr>previewAssets := Some 20000\<rparr>) 1"
  by (simp add: redeemDisabled_iff redeemViolations_def redeemTexts_def pausedBanner_def
      helper_defs js_defs sample_defs)

text \<open>The deposit button does take its violations into account, and the redeem texts
  are shown with their violations.\<close>

lemma deposit_violation_disables:
  "BelowMinimum \<in> set (depositViolations s a) \<or> AboveMaximum \<in> set (depositViolations s a)
   \<or> ExceedsAvailableCapacity \<in> set (depositViolations s a) \<Longrightarrow> depositDisabled s a"
  by (auto simp: depositDisabled_iff depositViolations_def pausedBanner_def shown_def
      split: if_splits)

lemma redeem_texts_shown:
  "BelowMinimum \<in> set (redeemViolations s r) \<Longrightarrow> ''Below min withdraw. '' \<in> set (redeemTexts s r)"
  "AboveMaximum \<in> set (redeemViolations s r) \<Longrightarrow> ''Above max withdraw. '' \<in> set (redeemTexts s r)"
  by (auto simp: redeemViolations_def redeemTexts_def pausedBanner_def shown_def split: if_splits)

section \<open>Failures of remote writes\<close>

text \<open>
  Claim C7. A failed write is caught and logged and never escapes the handler. The
  redeem handler has no \<^verbatim>\<open>try\<close> block: when the user rejects the signature of a redeem,
  the error leaves the handler unhandled and nothing is logged, whereas the deposit
  handler in the same situation returns after logging the error.
\<close>

theorem redeem_failure_unhandled:
  "redeemOnClick rejectsAll loadedScreen 1 =
     ([Wrote (Redeem VAULT_ADDRESS 1 ''0xA11CE'' ''0xA11CE'') (Inl SignatureRejected)],
      Unhandled SignatureRejected)
   \<and> \<not> list_ex is_error_log (fst (redeemOnClick rejectsAll loadedScreen 1))
   \<and> snd (depositOnClick rejectsAll loadedScreen 1) = Returned
   \<and> list_ex is_error_log (fst (depositOnClick rejectsAll loadedScreen 1))"
  by (simp add: click_defs js_defs sample_defs)

text \<open>The deposit handler always returns; a failed write is the last call it makes and
  is followed by the error log only; it issues at most two calls, never the same twice.\<close>

lemma deposit_failure_caught:
  "snd (depositOnClick w s a) = Returned"
  "list_ex is_failed_write (fst (depositOnClick w s a)) \<Longrightarrow>
     (\<exists>evs c err. fst (depositOnClick w s a)
          = evs @ [Wrote c (Inl err), ConsoleError ''Deposit flow failed'' err]
        \<and> \<not> list_ex is_failed_write evs)"
  "distinct (filter is_write (fst (depositOnClick w s a)))"
  "length (filter is_write (fst (depositOnClick w s a))) \<le> 2"
  by (auto simp: click_defs js_defs split: option.splits sum.splits prod.splits if_splits)

section \<open>Pause and the zero amount\<close>

text \<open>
  Claim C8. While the vault is paused the screen reports the paused violation for every
  amount typed into the deposit field, and the deposit button is disabled.
\<close>

theorem paused_deposit_blocked:
  "paused s = Some True \<Longrightarrow>
     VaultPaused \<in> set (depositViolations s a) \<and> depositDisabled s a"
  by (simp add: depositDisabled_iff depositViolations_def pausedBanner_def shown_def of_flag_def)

theorem paused_deposit_blocked_witness:
  "paused (loadedScreen\<lparr>paused := Some True\<rparr>) = Some True
   \<and> VaultPaused \<in> set (depositViolations (loadedScreen\<lparr>paused := Some True\<rparr>) 500)
   \<and> depositDisabled (loadedScreen\<lparr>paused := Some True\<rparr>) 500"
  using paused_deposit_blocked [where s = "loadedScreen\<lparr>paused := Some True\<rparr>" and a = 500]
  by simp




section \<open>Fallback scales\<close>

text \<open>
  Claim C10. While the decimals read of the asset token is unresolved the deposit input
  is parsed at scale 6, and while the decimals read of the vault is unresolved the redeem
  input is parsed at scale 18. The amount parsed at the fallback scale is the argument of
  the preview read, the amount the violations and the button are computed from, and the
  amount of every write the handler issues. Once a read resolves to \<open>d\<close> the scale is
  \<open>d\<close>, which need not be the fallback.
\<close>

theorem fallback_scales:
  "aDec (s\<lparr>tokenDecimals := None\<rparr>) = 6 \<and> vDec (s\<lparr>vaultDecimals := None\<rparr>) = 18
   \<and> aDec (s\<lparr>tokenDecimals := Some d\<rparr>) = d \<and> vDec (s\<lparr>vaultDecimals := Some d\<rparr>) = d
   \<and> fst (previewDepositQuery pu (s\<lparr>tokenDecimals := None\<rparr>)) = parseOrZero pu (depInput s) 6
   \<and> fst (previewRedeemQuery pu (s\<lparr>vaultDecimals := None\<rparr>)) = parseOrZero pu (redInput s) 18
   \<and> screenDepositViolations pu (s\<lparr>tokenDecimals := None\<rparr>)
       = depositViolations s (parseOrZero pu (depInput s) 6)
   \<and> screenDepositDisabled pu (s\<lparr>tokenDecimals := None\<rparr>)
       = depositDisabled s (parseOrZero pu (depInput s) 6)
   \<and> screenRedeemViolations pu (s\<lparr>vaultDecimals := None\<rparr>)
       = redeemViolations s (parseOrZero pu (redInput s) 18)
   \<and> screenRedeemDisabled pu (s\<lparr>vaultDecimals := None\<rparr>)
       = redeemDisabled s (parseOrZero pu (redInput s) 18)
   \<and> (\<forall>x \<in> set (written_amounts (fst (screenDepositClick pu w (s\<lparr>tokenDecimals := None\<rparr>)))).
         x = parseOrZero pu (depInput s) 6)
   \<and> (\<forall>x \<in> set (written_amounts (fst (screenRedeemClick pu w (s\<lparr>vaultDecimals := None\<rparr>)))).
         x = parseOrZero pu (redInput s) 18)"
  by (auto simp: whole_defs click_defs js_defs helper_defs depositDisabled_iff redeemDisabled_iff
      depositViolations_def redeemViolations_def pausedBanner_def
      split: option.splits sum.splits prod.splits if_splits)

text \<open>Before the decimals reads resolve, the text \<^verbatim>\<open>1\<close> in both fields: both deposit
  writes carry \<open>10 ^ 6\<close> and the redeem write carries \<open>10 ^ 18\<close>; for a token of 18
  decimals the same text is \<open>10 ^ 18\<close> once the read has resolved.\<close>

theorem fallback_scales_witness:
  "written_amounts (fst (screenDepositClick parsesOne submitsAll unloadedScreen)) = [1000000, 1000000]
   \<and> written_amounts (fst (screenRedeemClick parsesOne submitsAll unloadedScreen))
       = [1000000000000000000]
   \<and> parseOrZero parsesOne (depInput unloadedScreen) 6 = 1000000
   \<and> parseOrZero parsesOne (redInput unloadedScreen) 18 = 1000000000000000000
   \<and> depAmount parsesOne (unloadedScreen\<lparr>tokenDecimals := Some 18\<rparr>) = 1000000000000000000"
  using fallback_scales [where s = unloadedScreen and pu = parsesOne and w = submitsAll and d = 18]
  by (simp add: whole_defs click_defs js_defs parseOrZero_def sample_defs)

end
